theory Spec2Isabelle
  imports Complex_Main
begin

section \<open>Time, settings and errors\<close>

text \<open>
  A naive UTC \<open>datetime\<close> is the number of microseconds since the epoch (the resolution of
  Python's \<open>datetime\<close>), a \<open>timedelta\<close> a number of microseconds and a \<open>date\<close> a number of
  days. \<open>total_seconds() / 60\<close> is a Python float; it is modelled as the exact rational.
\<close>

type_synonym datetime = int
type_synonym timedelta = int
type_synonym date = int

definition timedelta_minutes :: "int \<Rightarrow> timedelta" where
  "timedelta_minutes m = m * 60000000"

definition total_seconds :: "timedelta \<Rightarrow> rat" where
  "total_seconds d = of_int d / 1000000"

definition date_of :: "datetime \<Rightarrow> date" where
  "date_of t = t div 86400000000"

text \<open>Python's \<open>int(x)\<close> on a float truncates towards zero.\<close>

definition int_of_float :: "rat \<Rightarrow> int" where
  "int_of_float x = (if 0 \<le> x then \<lfloor>x\<rfloor> else \<lceil>x\<rceil>)"

text \<open>The three settings of \<open>app/core/config.py\<close> that the service reads.\<close>

record settings =
  CODE_EXPIRATION_MINUTES :: int
  CODE_RESEND_DELAY_MINUTES :: int
  CODE_MAX_RESEND_PER_HOUR :: int

definition default_settings :: settings where
  "default_settings =
     \<lparr>CODE_EXPIRATION_MINUTES = 30, CODE_RESEND_DELAY_MINUTES = 2,
      CODE_MAX_RESEND_PER_HOUR = 5\<rparr>"

text \<open>
  The \<open>detail\<close> of an \<open>HTTPException\<close>, one constructor per message of the source:
  \<^item> \<open>Usuario_no_encontrado\<close>: "Usuario no encontrado en la base de datos." (404)
  \<^item> \<open>Contrato_finalizado\<close>: "El usuario no esta activo debido a la finalizacion del contrato." (403)
  \<^item> \<open>Debe_esperar w\<close>: "Debe esperar w minuto(s) antes de solicitar un nuevo codigo." (429)
  \<^item> \<open>Limite_por_hora\<close>: "Ha excedido el limite de reenvios por hora. Intente mas tarde." (429)
  \<^item> \<open>Error_al_generar\<close>, \<open>Error_al_validar\<close>, \<open>Error_al_reenviar\<close>: the three 500 messages.
  \<^item> \<open>Sin_mensaje\<close>: the empty string that \<open>can_resend\<close> returns beside \<open>True\<close>.
\<close>

datatype detail =
    Usuario_no_encontrado
  | Contrato_finalizado
  | Debe_esperar int
  | Limite_por_hora
  | Error_al_generar
  | Error_al_validar
  | Error_al_reenviar
  | Sin_mensaje

datatype exn = HTTPException nat detail | ValueError | StorageError

section \<open>Python's \<open>int(str)\<close>\<close>

text \<open>
  \<open>int(s)\<close> in base 10 on an ASCII string: surrounding whitespace is stripped, one sign is
  allowed, single underscores may separate digits; anything else raises \<open>ValueError\<close>.
  The limit that recent Python versions put on the number of digits is left out.
\<close>

definition is_space :: "char \<Rightarrow> bool" where
  "is_space c = ((of_char c :: nat) \<in> {9, 10, 11, 12, 13, 28, 29, 30, 31, 32})"

definition is_digit :: "char \<Rightarrow> bool" where
  "is_digit c = (48 \<le> (of_char c :: nat) \<and> (of_char c :: nat) \<le> 57)"

definition digit_val :: "char \<Rightarrow> int" where
  "digit_val c = int (of_char c) - 48"

fun int_digits :: "int \<Rightarrow> string \<Rightarrow> int option" where
  "int_digits acc [] = Some acc"
| "int_digits acc [c] = (if is_digit c then Some (acc * 10 + digit_val c) else None)"
| "int_digits acc (c # d # ds) =
     (if is_digit c then int_digits (acc * 10 + digit_val c) (d # ds)
      else if c = CHR ''_'' \<and> is_digit d then int_digits (acc * 10 + digit_val d) ds
      else None)"

definition py_int :: "string \<Rightarrow> exn + int" where
  "py_int s =
     (let t = rev (dropWhile is_space (rev (dropWhile is_space s)));
          sg = (case t of [] \<Rightarrow> 1 | c # cs \<Rightarrow> if c = CHR ''-'' then - 1 else 1);
          body = (case t of [] \<Rightarrow> []
                  | c # cs \<Rightarrow> if c = CHR ''-'' \<or> c = CHR ''+'' then cs else t)
      in case body of
           [] \<Rightarrow> Inl ValueError
         | d # ds \<Rightarrow>
             if is_digit d
             then (case int_digits (digit_val d) ds of
                     None \<Rightarrow> Inl ValueError
                   | Some n \<Rightarrow> Inr (sg * n))
             else Inl ValueError)"

section \<open>The two tables\<close>

text \<open>\<open>dbo.user_pswr\<close> (class \<open>CodeVerification\<close>): one row per integer key \<open>id\<close>.\<close>

record code_verification =
  id_cv :: int
  correo :: "string option"
  movil :: int
  pswr :: string
  time_stamp_generacion :: datetime
  time_stamp_vencimiento :: datetime
  revoked :: int
  resend_count :: int
  last_resend_at :: "datetime option"

text \<open>The columns of \<open>dbo.stg_personal\<close> that the two raw SQL queries select.\<close>

record stg_personal =
  nro_documento :: string
  ds_empleado :: "string option"
  correo_personal :: "string option"
  movil_personal :: "string option"
  ds_cargo :: "string option"
  cod_oficina_area :: "string option"
  dt_fin_contrato :: "date option"

type_synonym user_pswr = "code_verification list"
type_synonym personal = "stg_personal list"

section \<open>The environment of one call\<close>

text \<open>
  Everything a call reads from outside: \<open>clock n\<close> is what the \<open>n\<close>-th call of
  \<open>datetime.utcnow()\<close> returns, \<open>db_fails n\<close> says whether the \<open>n\<close>-th database round trip
  raises (connection loss, a constraint of the table, a value out of a column's range),
  \<open>draw\<close> is the six digits \<open>secrets.choice\<close> draws and \<open>salt\<close> the salt of the hasher.
\<close>

record env =
  clock :: "nat \<Rightarrow> datetime"
  db_fails :: "nat \<Rightarrow> bool"
  draw :: string
  salt :: string

definition shift_env :: "nat \<Rightarrow> nat \<Rightarrow> env \<Rightarrow> env" where
  "shift_env c d e =
     e\<lparr>clock := (\<lambda>n. clock e (n + c)), db_fails := (\<lambda>n. db_fails e (n + d))\<rparr>"

text \<open>
  \<open>passlib.hash.argon2\<close> is a library outside the repository: the service receives it as
  a parameter. \<open>argon2_verify\<close> may raise (a malformed digest).
\<close>

record hasher =
  argon2_hash :: "string \<Rightarrow> string \<Rightarrow> string"
  argon2_verify :: "string \<Rightarrow> string \<Rightarrow> exn + bool"

section \<open>The SQLAlchemy session\<close>

text \<open>
  A session (\<open>autocommit=False\<close>, \<open>autoflush=False\<close>) holds the rows it loaded and changed
  (\<open>pending\<close>) beside the rows of the database (\<open>committed\<close>). Only \<open>commit\<close> writes the
  changes; \<open>rollback\<close> and \<open>close\<close> drop them.
\<close>

record session =
  committed :: user_pswr
  pending :: user_pswr

definition SessionLocal :: "user_pswr \<Rightarrow> session" where
  "SessionLocal tbl = \<lparr>committed = tbl, pending = tbl\<rparr>"

definition query_first :: "int \<Rightarrow> session \<Rightarrow> code_verification option" where
  "query_first k db = find (\<lambda>r. id_cv r = k) (pending db)"

definition db_assign :: "code_verification \<Rightarrow> session \<Rightarrow> session" where
  "db_assign r db = db\<lparr>pending := map (\<lambda>x. if id_cv x = id_cv r then r else x) (pending db)\<rparr>"

definition db_add :: "code_verification \<Rightarrow> session \<Rightarrow> session" where
  "db_add r db = db\<lparr>pending := pending db @ [r]\<rparr>"

definition db_commit :: "bool \<Rightarrow> session \<Rightarrow> exn + session" where
  "db_commit fails db = (if fails then Inl StorageError else Inr (db\<lparr>committed := pending db\<rparr>))"

definition db_rollback :: "session \<Rightarrow> session" where
  "db_rollback db = db\<lparr>pending := committed db\<rparr>"

definition db_close :: "session \<Rightarrow> user_pswr" where
  "db_close db = committed db"

section \<open>\<open>app/models/code_verification.py\<close>\<close>

definition mark_as_revoked :: "code_verification \<Rightarrow> code_verification" where
  "mark_as_revoked self = self\<lparr>revoked := 1\<rparr>"

definition reset_resend_count :: "code_verification \<Rightarrow> code_verification" where
  "reset_resend_count self = self\<lparr>resend_count := 0, last_resend_at := None\<rparr>"

text \<open>
  \<open>can_resend\<close> returns the pair of the source and the object as the call leaves it (the
  hourly branch resets its counters). \<open>now\<close> is the one clock reading of the method.
  \<open>if self.last_resend_at\<close> tests for \<open>None\<close> (a \<open>datetime\<close> is never falsy);
  \<open>if self.time_stamp_generacion\<close> is always true, the column is not nullable.
\<close>

definition can_resend ::
  "settings \<Rightarrow> datetime \<Rightarrow> code_verification \<Rightarrow> (bool \<times> detail) \<times> code_verification" where
  "can_resend cfg now self =
     (let delayed =
            (case last_resend_at self of
               None \<Rightarrow> None
             | Some l \<Rightarrow>
                 (let time_since_last = total_seconds (now - l) / 60
                  in if time_since_last < of_int (CODE_RESEND_DELAY_MINUTES cfg)
                     then Some (int_of_float
                                  (of_int (CODE_RESEND_DELAY_MINUTES cfg) - time_since_last) + 1)
                     else None))
      in case delayed of
           Some wait_time \<Rightarrow> ((False, Debe_esperar wait_time), self)
         | None \<Rightarrow>
             if resend_count self \<ge> CODE_MAX_RESEND_PER_HOUR cfg
             then (let hours_since_first =
                         total_seconds (now - time_stamp_generacion self) / 3600
                   in if hours_since_first < 1
                      then ((False, Limite_por_hora), self)
                      else ((True, Sin_mensaje), reset_resend_count self))
             else ((True, Sin_mensaje), self))"

text \<open>
  \<open>create_code\<close> reads the clock twice: first for \<open>expires_at\<close>, then for
  \<open>time_stamp_generacion\<close>.
\<close>

definition create_code ::
  "settings \<Rightarrow> (nat \<Rightarrow> datetime) \<Rightarrow> int \<Rightarrow> string option \<Rightarrow> int \<Rightarrow> string \<Rightarrow> code_verification" where
  "create_code cfg clk document_number correo' movil' pswr' =
     (let expiration_minutes = CODE_EXPIRATION_MINUTES cfg;
          expires_at = clk 0 + timedelta_minutes expiration_minutes
      in \<lparr>id_cv = document_number, correo = correo', movil = movil', pswr = pswr',
          time_stamp_generacion = clk 1, time_stamp_vencimiento = expires_at,
          revoked = 0, resend_count = 0, last_resend_at = None\<rparr>)"

section \<open>\<open>app/services/code_service.py\<close>\<close>

definition hash_code :: "hasher \<Rightarrow> string \<Rightarrow> string \<Rightarrow> string" where
  "hash_code H slt code = argon2_hash H slt code"

definition verify_code_hash :: "hasher \<Rightarrow> string \<Rightarrow> string \<Rightarrow> bool" where
  "verify_code_hash H code hashed_code =
     (case argon2_verify H code hashed_code of Inr b \<Rightarrow> b | Inl e \<Rightarrow> False)"

record gen_result =
  gen_correo :: "string option"
  gen_nombre :: "string option"
  gen_code :: string

text \<open>\<open>int(user.movil) if user.movil else 0\<close>: \<open>None\<close> and the empty string are falsy.\<close>

definition movil_int :: "stg_personal \<Rightarrow> exn + int" where
  "movil_int user =
     (case movil_personal user of
        None \<Rightarrow> Inr 0
      | Some m \<Rightarrow> if m = [] then Inr 0 else py_int m)"

text \<open>
  The rewrite of an existing row (lines 79 to 92): three clock readings, the third only
  for a resend. \<open>existing_code.resend_count or 0\<close> is \<open>resend_count\<close>, an integer column
  that is not nullable.
\<close>

definition overwrite_code ::
  "settings \<Rightarrow> (nat \<Rightarrow> datetime) \<Rightarrow> stg_personal \<Rightarrow> int \<Rightarrow> string \<Rightarrow> bool \<Rightarrow>
   code_verification \<Rightarrow> code_verification" where
  "overwrite_code cfg clk user movil' hashed_code is_resend existing_code =
     (let e1 = existing_code\<lparr>correo := correo_personal user, movil := movil',
                 pswr := hashed_code, time_stamp_generacion := clk 0,
                 time_stamp_vencimiento :=
                   clk 1 + timedelta_minutes (CODE_EXPIRATION_MINUTES cfg),
                 revoked := 0\<rparr>
      in if is_resend
         then e1\<lparr>resend_count := resend_count existing_code + 1,
                 last_resend_at := Some (clk 2)\<rparr>
         else e1\<lparr>resend_count := 0, last_resend_at := None\<rparr>)"

text \<open>
  The body of the \<open>try\<close> of \<open>generate_code\<close>: the result or the exception, and the session
  as the body leaves it. The contract check reads the clock only when an end date is set.
\<close>

definition generate_try ::
  "settings \<Rightarrow> hasher \<Rightarrow> env \<Rightarrow> personal \<Rightarrow> session \<Rightarrow> string \<Rightarrow> bool \<Rightarrow>
   (exn + gen_result) \<times> session" where
  "generate_try cfg H e P db document_number is_resend =
     (if db_fails e 0 then (Inl StorageError, db)
      else case find (\<lambda>u. nro_documento u = document_number) P of
        None \<Rightarrow> (Inl (HTTPException 404 Usuario_no_encontrado), db)
      | Some user \<Rightarrow>
          (let ended = (case dt_fin_contrato user of
                          None \<Rightarrow> False
                        | Some d \<Rightarrow> d < date_of (clock e 0));
               reads = (case dt_fin_contrato user of None \<Rightarrow> 0 | Some d \<Rightarrow> 1);
               clk = (\<lambda>n. clock e (n + reads))
           in if ended then (Inl (HTTPException 403 Contrato_finalizado), db)
              else
                (let code = draw e;
                     hashed_code = hash_code H (salt e) code
                 in case movil_int user of
                      Inl x \<Rightarrow> (Inl x, db)
                    | Inr movil' \<Rightarrow>
                       (case py_int document_number of
                          Inl x \<Rightarrow> (Inl x, db)
                        | Inr key \<Rightarrow>
                           if db_fails e 1 then (Inl StorageError, db)
                           else
                             (let db1 =
                                (case query_first key db of
                                   Some existing_code \<Rightarrow>
                                     db_assign (overwrite_code cfg clk user movil'
                                                  hashed_code is_resend existing_code) db
                                 | None \<Rightarrow>
                                     db_add (create_code cfg clk key (correo_personal user)
                                               movil' hashed_code) db)
                              in case db_commit (db_fails e 2) db1 of
                                   Inl x \<Rightarrow> (Inl x, db1)
                                 | Inr db2 \<Rightarrow>
                                     (Inr \<lparr>gen_correo = correo_personal user,
                                           gen_nombre = ds_empleado user,
                                           gen_code = code\<rparr>, db2))))))"

text \<open>
  \<open>generate_code\<close>: an \<open>HTTPException\<close> passes through, any other exception rolls back and
  becomes a 500; the session is closed in every case. The second component is the table
  after the call.
\<close>

definition generate_code ::
  "settings \<Rightarrow> hasher \<Rightarrow> env \<Rightarrow> personal \<Rightarrow> user_pswr \<Rightarrow> string \<Rightarrow> bool \<Rightarrow>
   (exn + gen_result) \<times> user_pswr" where
  "generate_code cfg H e P tbl document_number is_resend =
     (case generate_try cfg H e P (SessionLocal tbl) document_number is_resend of
        (Inr res, db) \<Rightarrow> (Inr res, db_close db)
      | (Inl (HTTPException c d), db) \<Rightarrow> (Inl (HTTPException c d), db_close db)
      | (Inl x, db) \<Rightarrow> (Inl (HTTPException 500 Error_al_generar), db_close (db_rollback db)))"

text \<open>
  The messages of \<open>validate_code\<close>, named as the specification names the outcomes:
  \<^item> \<open>CodeNotFound\<close>: "No se encontro un codigo de verificacion para este usuario."
  \<^item> \<open>CodeAlreadyUsed\<close>: "El codigo ya fue utilizado. Solicite uno nuevo."
  \<^item> \<open>CodeExpired\<close>: "El codigo ha expirado. Solicite uno nuevo."
  \<^item> \<open>CodeIncorrect\<close>: "El codigo ingresado es incorrecto."
  \<^item> \<open>CodeVerified\<close>: "Codigo verificado correctamente."
\<close>

datatype message = CodeNotFound | CodeAlreadyUsed | CodeExpired | CodeIncorrect | CodeVerified

record profile =
  data_document_number :: string
  data_nombre :: "string option"
  data_correo :: "string option"
  data_cargo :: "string option"
  data_oficina :: "string option"

record validate_result =
  success :: bool
  message :: message
  data :: "profile option"

definition failure :: "message \<Rightarrow> validate_result" where
  "failure m = \<lparr>success = False, message = m, data = None\<rparr>"

definition opt_field :: "('a \<Rightarrow> 'b option) \<Rightarrow> 'a option \<Rightarrow> 'b option" where
  "opt_field f user = (case user of None \<Rightarrow> None | Some u \<Rightarrow> f u)"

definition validate_try ::
  "hasher \<Rightarrow> env \<Rightarrow> personal \<Rightarrow> session \<Rightarrow> string \<Rightarrow> string \<Rightarrow>
   (exn + validate_result) \<times> session" where
  "validate_try H e P db document_number code =
     (case py_int document_number of
        Inl x \<Rightarrow> (Inl x, db)
      | Inr key \<Rightarrow>
          if db_fails e 0 then (Inl StorageError, db)
          else case query_first key db of
            None \<Rightarrow> (Inr (failure CodeNotFound), db)
          | Some code_instance \<Rightarrow>
              if revoked code_instance \<noteq> 0 then (Inr (failure CodeAlreadyUsed), db)
              else if time_stamp_vencimiento code_instance < clock e 0
                then (Inr (failure CodeExpired), db)
              else if \<not> verify_code_hash H code (pswr code_instance)
                then (Inr (failure CodeIncorrect), db)
              else
                (let db1 = db_assign (mark_as_revoked code_instance) db
                 in case db_commit (db_fails e 1) db1 of
                      Inl x \<Rightarrow> (Inl x, db1)
                    | Inr db2 \<Rightarrow>
                        if db_fails e 2 then (Inl StorageError, db2)
                        else
                          (let user = find (\<lambda>u. nro_documento u = document_number) P
                           in (Inr \<lparr>success = True, message = CodeVerified,
                                    data = Some
                                      \<lparr>data_document_number = document_number,
                                       data_nombre = opt_field ds_empleado user,
                                       data_correo = opt_field correo_personal user,
                                       data_cargo = opt_field ds_cargo user,
                                       data_oficina = opt_field cod_oficina_area user\<rparr>\<rparr>,
                               db2))))"

definition validate_code ::
  "hasher \<Rightarrow> env \<Rightarrow> personal \<Rightarrow> user_pswr \<Rightarrow> string \<Rightarrow> string \<Rightarrow>
   (exn + validate_result) \<times> user_pswr" where
  "validate_code H e P tbl document_number code =
     (case validate_try H e P (SessionLocal tbl) document_number code of
        (Inr res, db) \<Rightarrow> (Inr res, db_close db)
      | (Inl x, db) \<Rightarrow> (Inl (HTTPException 500 Error_al_validar), db_close (db_rollback db)))"

text \<open>
  \<open>resend_code\<close> checks the throttle in a session of its own, closes that session without
  a commit and calls \<open>generate_code\<close>, which opens a new one on the table.
\<close>

definition resend_try ::
  "settings \<Rightarrow> hasher \<Rightarrow> env \<Rightarrow> personal \<Rightarrow> session \<Rightarrow> string \<Rightarrow>
   (exn + gen_result) \<times> user_pswr" where
  "resend_try cfg H e P db document_number =
     (case py_int document_number of
        Inl x \<Rightarrow> (Inl x, db_close db)
      | Inr key \<Rightarrow>
          if db_fails e 0 then (Inl StorageError, db_close db)
          else
            (case query_first key db of
               None \<Rightarrow>
                 generate_code cfg H (shift_env 0 1 e) P (db_close db) document_number True
             | Some existing_code \<Rightarrow>
                 (case can_resend cfg (clock e 0) existing_code of
                    ((ok, error_message), existing_code') \<Rightarrow>
                      (if \<not> ok
                       then (Inl (HTTPException 429 error_message),
                             db_close (db_assign existing_code' db))
                       else generate_code cfg H (shift_env 1 1 e) P
                              (db_close (db_assign existing_code' db)) document_number True))))"

definition resend_code ::
  "settings \<Rightarrow> hasher \<Rightarrow> env \<Rightarrow> personal \<Rightarrow> user_pswr \<Rightarrow> string \<Rightarrow>
   (exn + gen_result) \<times> user_pswr" where
  "resend_code cfg H e P tbl document_number =
     (case resend_try cfg H e P (SessionLocal tbl) document_number of
        (Inr res, tbl') \<Rightarrow> (Inr res, tbl')
      | (Inl (HTTPException c d), tbl') \<Rightarrow> (Inl (HTTPException c d), tbl')
      | (Inl x, tbl') \<Rightarrow> (Inl (HTTPException 500 Error_al_reenviar), tbl'))"

text \<open>
  \<open>cleanup_expired_codes\<close>: a bulk delete of the rows that are expired at the clock reading
  and have \<open>revoked == 0\<close>, and a commit; any exception rolls back and the function
  returns 0.
\<close>

definition expired_unused :: "datetime \<Rightarrow> code_verification \<Rightarrow> bool" where
  "expired_unused now r = (time_stamp_vencimiento r < now \<and> revoked r = 0)"

definition cleanup_try :: "env \<Rightarrow> session \<Rightarrow> (exn + int) \<times> session" where
  "cleanup_try e db =
     (let now = clock e 0
      in if db_fails e 0 then (Inl StorageError, db)
         else
           (let deleted_count = int (length (filter (expired_unused now) (pending db)));
                db1 = db\<lparr>pending := filter (\<lambda>r. \<not> expired_unused now r) (pending db)\<rparr>
            in case db_commit (db_fails e 1) db1 of
                 Inl x \<Rightarrow> (Inl x, db1)
               | Inr db2 \<Rightarrow> (Inr deleted_count, db2)))"

definition cleanup_expired_codes :: "env \<Rightarrow> user_pswr \<Rightarrow> (exn + int) \<times> user_pswr" where
  "cleanup_expired_codes e tbl =
     (case cleanup_try e (SessionLocal tbl) of
        (Inr n, db) \<Rightarrow> (Inr n, db_close db)
      | (Inl x, db) \<Rightarrow> (Inr 0, db_close (db_rollback db)))"

section \<open>Sequences of calls\<close>

text \<open>
  The API layer turns every request into one call of the service. A history of requests is
  a list of calls, each with the environment and the personnel table of its moment.
\<close>

datatype call =
    Generate env personal string
  | Resend env personal string
  | Validate env personal string string
  | Cleanup env

fun perform ::
  "settings \<Rightarrow> hasher \<Rightarrow> call \<Rightarrow> user_pswr \<Rightarrow> user_pswr" where
  "perform cfg H (Generate e P d) tbl = snd (generate_code cfg H e P tbl d False)"
| "perform cfg H (Resend e P d) tbl = snd (resend_code cfg H e P tbl d)"
| "perform cfg H (Validate e P d c) tbl = snd (validate_code H e P tbl d c)"
| "perform cfg H (Cleanup e) tbl = snd (cleanup_expired_codes e tbl)"

definition run :: "settings \<Rightarrow> hasher \<Rightarrow> call list \<Rightarrow> user_pswr \<Rightarrow> user_pswr" where
  "run cfg H calls tbl = fold (perform cfg H) calls tbl"


section \<open>Concrete data for the instances\<close>

text \<open>
  A stand-in for the hasher, used only to run the service on concrete inputs: the digest
  is the salt, a dollar sign and the secret; a digest without a dollar sign is malformed.
  It is not a model of Argon2.
\<close>

definition demo_hasher :: hasher where
  "demo_hasher =
     \<lparr>argon2_hash = (\<lambda>slt secret. slt @ ''$'' @ secret),
      argon2_verify = (\<lambda>secret digest.
         if CHR ''$'' \<in> set digest
         then Inr (tl (dropWhile (\<lambda>c. c \<noteq> CHR ''$'') digest) = secret)
         else Inl ValueError)\<rparr>"

text \<open>A clock that advances one microsecond per reading, and a database that never fails.\<close>

definition demo_env :: "datetime \<Rightarrow> string \<Rightarrow> env" where
  "demo_env t code =
     \<lparr>clock = (\<lambda>n. t + int n), db_fails = (\<lambda>n. False), draw = code, salt = ''s''\<rparr>"

definition demo_user :: stg_personal where
  "demo_user =
     \<lparr>nro_documento = ''0123'', ds_empleado = Some ''Ana'',
      correo_personal = Some ''ana@example.com'', movil_personal = Some ''3001234567'',
      ds_cargo = Some ''Analista'', cod_oficina_area = Some ''A1'',
      dt_fin_contrato = None\<rparr>"

definition demo_row :: code_verification where
  "demo_row =
     \<lparr>id_cv = 123, correo = Some ''ana@example.com'', movil = 3001234567,
      pswr = ''s$000123'', time_stamp_generacion = 0,
      time_stamp_vencimiento = 1800000000, revoked = 0, resend_count = 0,
      last_resend_at = None\<rparr>"

definition minute :: int where
  "minute = 60000000"

text \<open>
  A history that reaches the hourly cap: a first code at minute 0 and five resends, three
  minutes apart, the last at minute 15. \<open>capped_row\<close> is the row it leaves.
\<close>

definition resend_history :: "call list" where
  "resend_history =
     [Generate (demo_env 0 ''000123'') [demo_user] ''0123'',
      Resend (demo_env (3 * minute) ''111111'') [demo_user] ''0123'',
      Resend (demo_env (6 * minute) ''222222'') [demo_user] ''0123'',
      Resend (demo_env (9 * minute) ''333333'') [demo_user] ''0123'',
      Resend (demo_env (12 * minute) ''444444'') [demo_user] ''0123'',
      Resend (demo_env (15 * minute) ''555555'') [demo_user] ''0123'']"

definition capped_row :: code_verification where
  "capped_row =
     \<lparr>id_cv = 123, correo = Some ''ana@example.com'', movil = 3001234567,
      pswr = ''s$555555'', time_stamp_generacion = 900000001,
      time_stamp_vencimiento = 2700000002, revoked = 0, resend_count = 5,
      last_resend_at = Some 900000003\<rparr>"

section \<open>The invariant of the specification\<close>

text \<open>
  Following the specification: \<open>expires_at\<close> is \<open>issued_at\<close> plus exactly the configured
  time to live.
\<close>

definition ttl_exact :: "settings \<Rightarrow> code_verification \<Rightarrow> bool" where
  "ttl_exact cfg r =
     (time_stamp_vencimiento r =
        time_stamp_generacion r + timedelta_minutes (CODE_EXPIRATION_MINUTES cfg))"

section \<open>Auxiliary facts\<close>


lemma find_key: "find (\<lambda>x. id_cv x = k) tbl = Some r \<Longrightarrow> id_cv r = k \<and> r \<in> set tbl"
  by (induction tbl) (auto split: if_splits)

lemma find_assign_same:
  "find (\<lambda>x. id_cv x = k) tbl = Some r \<Longrightarrow> id_cv r' = k \<Longrightarrow>
   find (\<lambda>x. id_cv x = k) (map (\<lambda>x. if id_cv x = id_cv r' then r' else x) tbl) = Some r'"
  by (induction tbl) (auto split: if_splits)



lemma find_append_new:
  "find (\<lambda>x. id_cv x = k) tbl = None \<Longrightarrow> id_cv r' = k \<Longrightarrow>
   find (\<lambda>x. id_cv x = k) (tbl @ [r']) = Some r'"
  by (induction tbl) (auto split: if_splits)








lemmas session_defs = SessionLocal_def query_first_def db_assign_def db_add_def db_commit_def
  db_rollback_def db_close_def

lemma generate_code_ok:
  assumes "\<not> db_fails e 0" "\<not> db_fails e 1" "\<not> db_fails e 2"
    and "find (\<lambda>u. nro_documento u = d) P = Some user"
    and "\<forall>dd. dt_fin_contrato user = Some dd \<longrightarrow> \<not> dd < date_of (clock e 0)"
    and "movil_int user = Inr m" and "py_int d = Inr k"
  shows "generate_code cfg H e P tbl d b =
     (Inr \<lparr>gen_correo = correo_personal user, gen_nombre = ds_empleado user, gen_code = draw e\<rparr>,
      (let clk = (\<lambda>n. clock e (n + (case dt_fin_contrato user of None \<Rightarrow> 0 | Some dd \<Rightarrow> 1)))
       in case find (\<lambda>x. id_cv x = k) tbl of
         Some ex \<Rightarrow>
           map (\<lambda>x. if id_cv x = id_cv ex
                    then overwrite_code cfg clk user m (hash_code H (salt e) (draw e)) b ex
                    else x) tbl
       | None \<Rightarrow> tbl @ [create_code cfg clk k (correo_personal user) m
                           (hash_code H (salt e) (draw e))]))"
  using assms
  by (auto simp add: generate_code_def generate_try_def session_defs Let_def overwrite_code_def
        split: option.splits)

lemma generate_code_Inr:
  assumes "generate_code cfg H e P tbl d b = (Inr g, tbl')"
  shows "\<exists>user m k. \<not> db_fails e 0 \<and> \<not> db_fails e 1 \<and> \<not> db_fails e 2 \<and>
     find (\<lambda>u. nro_documento u = d) P = Some user \<and>
     (\<forall>dd. dt_fin_contrato user = Some dd \<longrightarrow> \<not> dd < date_of (clock e 0)) \<and>
     movil_int user = Inr m \<and> py_int d = Inr k"
  using assms
  by (auto simp add: generate_code_def generate_try_def session_defs Let_def
        split: option.splits sum.splits if_splits exn.splits)


lemma overwrite_code_id [simp]: "id_cv (overwrite_code cfg clk user m h b ex) = id_cv ex"
  by (simp add: overwrite_code_def Let_def)

lemma overwrite_code_revoked [simp]: "revoked (overwrite_code cfg clk user m h b ex) = 0"
  by (simp add: overwrite_code_def Let_def)

lemma overwrite_code_pswr [simp]: "pswr (overwrite_code cfg clk user m h b ex) = h"
  by (simp add: overwrite_code_def Let_def)


lemma py_int_Inl: "py_int s = Inl x \<Longrightarrow> x = ValueError"
  by (auto simp: py_int_def Let_def split: list.splits if_splits option.splits)

lemma generate_code_exn:
  "generate_code cfg H e P tbl d b = (Inl x, tbl') \<Longrightarrow> \<exists>c dd. x = HTTPException c dd"
  by (auto simp add: generate_code_def split: prod.splits sum.splits exn.splits)

lemma resend_wrap_generate:
  "(case generate_code cfg H e P tbl d b of
      (Inr res, tbl') \<Rightarrow> (Inr res, tbl')
    | (Inl (HTTPException c dd), tbl') \<Rightarrow> (Inl (HTTPException c dd), tbl')
    | (Inl x, tbl') \<Rightarrow> (Inl (HTTPException 500 Error_al_reenviar), tbl')) =
   generate_code cfg H e P tbl d b"
proof (cases "generate_code cfg H e P tbl d b")
  case (Pair a tbl')
  then show ?thesis
    by (cases a) (auto dest: generate_code_exn)
qed

lemma resend_code_unfold:
  "resend_code cfg H e P tbl d =
     (case py_int d of
        Inl x \<Rightarrow> (Inl (HTTPException 500 Error_al_reenviar), tbl)
      | Inr k \<Rightarrow>
          if db_fails e 0 then (Inl (HTTPException 500 Error_al_reenviar), tbl)
          else (case find (\<lambda>x. id_cv x = k) tbl of
                  None \<Rightarrow> generate_code cfg H (shift_env 0 1 e) P tbl d True
                | Some ex \<Rightarrow>
                    if fst (fst (can_resend cfg (clock e 0) ex))
                    then generate_code cfg H (shift_env 1 1 e) P tbl d True
                    else (Inl (HTTPException 429 (snd (fst (can_resend cfg (clock e 0) ex)))),
                          tbl)))"
proof (cases "py_int d")
  case (Inl x)
  then show ?thesis
    using py_int_Inl[of d x] by (simp add: resend_code_def resend_try_def session_defs)
next
  case (Inr k)
  show ?thesis
  proof (cases "db_fails e 0")
    case True
    then show ?thesis
      by (simp add: resend_code_def resend_try_def session_defs Inr)
  next
    case nf: False
    show ?thesis
    proof (cases "find (\<lambda>x. id_cv x = k) tbl")
      case None
      then show ?thesis
        using resend_wrap_generate[of cfg H "shift_env 0 1 e" P tbl d True]
        by (simp add: resend_code_def resend_try_def session_defs Inr nf)
    next
      case (Some ex)
      obtain ok msg ex' where cr: "can_resend cfg (clock e 0) ex = ((ok, msg), ex')"
        by (metis prod.exhaust)
      show ?thesis
        using resend_wrap_generate[of cfg H "shift_env 1 1 e" P tbl d True]
        by (simp add: resend_code_def resend_try_def session_defs Inr nf Some cr)
    qed
  qed
qed


lemma cleanup_unfold:
  "cleanup_expired_codes e tbl =
     (if db_fails e 0 \<or> db_fails e 1 then (Inr 0, tbl)
      else (Inr (int (length (filter (expired_unused (clock e 0)) tbl))),
            filter (\<lambda>r. \<not> expired_unused (clock e 0) r) tbl))"
  by (simp add: cleanup_expired_codes_def cleanup_try_def session_defs Let_def)









lemma verify_code_hash_raises:
  "argon2_verify H code hashed_code = Inl x \<Longrightarrow> \<not> verify_code_hash H code hashed_code"
  by (simp add: verify_code_hash_def)

lemmas service_defs = validate_code_def validate_try_def generate_code_def generate_try_def
  resend_code_def resend_try_def cleanup_expired_codes_def cleanup_try_def session_defs
  can_resend_def create_code_def overwrite_code_def mark_as_revoked_def reset_resend_count_def
  hash_code_def verify_code_hash_def movil_int_def failure_def opt_field_def shift_env_def
  expired_unused_def Let_def

lemmas demo_defs = demo_hasher_def demo_env_def demo_user_def demo_row_def minute_def
  default_settings_def

lemma py_int_0123: "py_int ''0123'' = Inr 123" by code_simp
lemma py_int_movil: "py_int ''3001234567'' = Inr 3001234567" by code_simp

lemma generate_code_times:
  assumes g: "generate_code cfg H e P tbl d b = (Inr g, tbl1)" and k: "py_int d = Inr k"
  shows "\<exists>r c. find (\<lambda>x. id_cv x = k) tbl1 = Some r \<and>
           (if find (\<lambda>x. id_cv x = k) tbl = None
            then time_stamp_vencimiento r =
                   clock e c + timedelta_minutes (CODE_EXPIRATION_MINUTES cfg) \<and>
                 time_stamp_generacion r = clock e (Suc c)
            else time_stamp_generacion r = clock e c \<and>
                 time_stamp_vencimiento r =
                   clock e (Suc c) + timedelta_minutes (CODE_EXPIRATION_MINUTES cfg))"
proof -
  from generate_code_Inr[OF g] k
  obtain user m where ok: "\<not> db_fails e 0" "\<not> db_fails e 1" "\<not> db_fails e 2"
      "find (\<lambda>u. nro_documento u = d) P = Some user"
      "\<forall>dd. dt_fin_contrato user = Some dd \<longrightarrow> \<not> dd < date_of (clock e 0)"
      "movil_int user = Inr m" "py_int d = Inr k"
    by auto
  let ?c = "case dt_fin_contrato user of None \<Rightarrow> 0 | Some dd \<Rightarrow> (1::nat)"
  let ?clk = "\<lambda>n. clock e (n + ?c)"
  let ?h = "hash_code H (salt e) (draw e)"
  show ?thesis
  proof (cases "find (\<lambda>x. id_cv x = k) tbl")
    case None
    let ?r = "create_code cfg ?clk k (correo_personal user) m ?h"
    have "id_cv ?r = k" by (simp add: create_code_def Let_def)
    from find_append_new[OF None this]
    have "find (\<lambda>x. id_cv x = k) tbl1 = Some ?r"
      using g unfolding generate_code_ok[OF ok] by (simp add: Let_def None)
    moreover have "time_stamp_vencimiento ?r =
        clock e ?c + timedelta_minutes (CODE_EXPIRATION_MINUTES cfg) \<and>
        time_stamp_generacion ?r = clock e (Suc ?c)"
      by (simp add: create_code_def Let_def)
    ultimately show ?thesis using None by auto
  next
    case (Some ex)
    let ?r = "overwrite_code cfg ?clk user m ?h b ex"
    have "id_cv ?r = k" using find_key[OF Some] by simp
    from find_assign_same[OF Some this]
    have "find (\<lambda>x. id_cv x = k) tbl1 = Some ?r"
      using g unfolding generate_code_ok[OF ok] by (simp add: Let_def Some)
    moreover have "time_stamp_generacion ?r = clock e ?c \<and>
        time_stamp_vencimiento ?r =
          clock e (Suc ?c) + timedelta_minutes (CODE_EXPIRATION_MINUTES cfg)"
      by (simp add: overwrite_code_def Let_def)
    ultimately show ?thesis using Some by auto
  qed
qed

lemma can_resend_delay:
  assumes "last_resend_at r = Some l"
    and "total_seconds (now - l) / 60 < of_int (CODE_RESEND_DELAY_MINUTES cfg)"
  shows "can_resend cfg now r =
     ((False, Debe_esperar
         (\<lfloor>of_int (CODE_RESEND_DELAY_MINUTES cfg) - total_seconds (now - l) / 60\<rfloor> + 1)), r)"
  using assms by (simp add: can_resend_def Let_def int_of_float_def)

lemma can_resend_hourly:
  assumes "last_resend_at r = None \<or>
           (\<exists>l. last_resend_at r = Some l \<and>
                \<not> total_seconds (now - l) / 60 < of_int (CODE_RESEND_DELAY_MINUTES cfg))"
    and "resend_count r \<ge> CODE_MAX_RESEND_PER_HOUR cfg"
  shows "can_resend cfg now r =
     (if total_seconds (now - time_stamp_generacion r) / 3600 < 1
      then ((False, Limite_por_hora), r)
      else ((True, Sin_mensaje), reset_resend_count r))"
  using assms by (auto simp add: can_resend_def Let_def)

lemma resend_throttled:
  assumes "py_int d = Inr k" and "\<not> db_fails e 0"
    and "find (\<lambda>x. id_cv x = k) tbl = Some r"
    and "fst (can_resend cfg (clock e 0) r) = (False, msg)"
  shows "resend_code cfg H e P tbl d = (Inl (HTTPException 429 msg), tbl)"
  using assms unfolding resend_code_unfold by simp

lemma resend_allowed:
  assumes "py_int d = Inr k" and "\<not> db_fails e 0"
    and "find (\<lambda>x. id_cv x = k) tbl = Some r"
    and "fst (fst (can_resend cfg (clock e 0) r))"
  shows "resend_code cfg H e P tbl d = generate_code cfg H (shift_env 1 1 e) P tbl d True"
  using assms unfolding resend_code_unfold by simp

lemmas eval_defs = service_defs demo_defs py_int_0123 py_int_movil timedelta_minutes_def
  total_seconds_def int_of_float_def run_def

lemma history_table: "run default_settings demo_hasher resend_history [] = [capped_row]"
  by (simp add: eval_defs resend_history_def capped_row_def)

section \<open>The claims\<close>







text \<open>
  C4, as amended. A sweep whose delete and commit succeed removes exactly the rows whose
  \<open>time_stamp_vencimiento\<close> is before the clock reading of the sweep and whose \<open>revoked\<close>
  is 0, returns their number, and keeps every other row (expiry not in the past, or used)
  as it is, in the same order.
\<close>

theorem sweep_expired_unused:
  assumes "\<not> db_fails e 0" and "\<not> db_fails e 1"
  shows "cleanup_expired_codes e tbl =
           (Inr (int (length [r \<leftarrow> tbl. time_stamp_vencimiento r < clock e 0 \<and> revoked r = 0])),
            [r \<leftarrow> tbl. \<not> (time_stamp_vencimiento r < clock e 0 \<and> revoked r = 0)]) \<and>
         (\<forall>r \<in> set tbl. time_stamp_vencimiento r < clock e 0 \<and> revoked r = 0 \<longrightarrow>
            r \<notin> set (snd (cleanup_expired_codes e tbl))) \<and>
         (\<forall>r \<in> set tbl. clock e 0 \<le> time_stamp_vencimiento r \<or> revoked r \<noteq> 0 \<longrightarrow>
            r \<in> set (snd (cleanup_expired_codes e tbl)))"
  using assms by (auto simp add: cleanup_unfold expired_unused_def[abs_def])

text \<open>
  Instance: at minute 40, of an expired unused row, an expired used row and an unexpired
  row, only the first is deleted.
\<close>

theorem sweep_expired_unused_witness:
  "cleanup_expired_codes (demo_env (40 * minute) ''999999'')
     [demo_row, demo_row\<lparr>id_cv := 7, revoked := 1\<rparr>,
      demo_row\<lparr>id_cv := 8, time_stamp_vencimiento := 50 * minute\<rparr>] =
   (Inr 1, [demo_row\<lparr>id_cv := 7, revoked := 1\<rparr>,
            demo_row\<lparr>id_cv := 8, time_stamp_vencimiento := 50 * minute\<rparr>])"
proof -
  have f: "\<not> db_fails (demo_env (40 * minute) ''999999'') 0"
    "\<not> db_fails (demo_env (40 * minute) ''999999'') 1"
    by (simp_all add: demo_env_def)
  from sweep_expired_unused[OF f] show ?thesis
    by (simp add: demo_defs)
qed

text \<open>
  C4 as stated fails: a row whose expiry lies in the past and that was used survives the
  sweep, which deletes nothing.
\<close>

theorem sweep_keeps_used_counterexample:
  "time_stamp_vencimiento (demo_row\<lparr>revoked := 1\<rparr>) < clock (demo_env (40 * minute) ''999999'') 0 \<and>
   cleanup_expired_codes (demo_env (40 * minute) ''999999'') [demo_row\<lparr>revoked := 1\<rparr>] =
     (Inr 0, [demo_row\<lparr>revoked := 1\<rparr>])"
  by (simp add: cleanup_unfold expired_unused_def demo_defs)

text \<open>
  C10. \<open>cleanup_expired_codes\<close> always returns a number. When the delete or the commit
  raises, it returns 0 and the table is as before; it also returns 0, with the table as
  before, when no unused row is expired, so 0 does not tell the two apart.
\<close>

theorem cleanup_never_raises:
  "(\<exists>n. fst (cleanup_expired_codes e tbl) = Inr n) \<and>
   (db_fails e 0 \<or> db_fails e 1 \<longrightarrow> cleanup_expired_codes e tbl = (Inr 0, tbl)) \<and>
   ((\<forall>r \<in> set tbl. \<not> expired_unused (clock e 0) r) \<longrightarrow>
      cleanup_expired_codes e tbl = (Inr 0, tbl))"
  by (auto simp add: cleanup_unfold filter_empty_conv filter_id_conv)

text \<open>
  Instance: a sweep at minute 40 whose commit fails, over an expired row, and a sweep at
  minute 1 that finds nothing expired both return 0 and leave the row.
\<close>

theorem cleanup_never_raises_witness:
  "cleanup_expired_codes (demo_env (40 * minute) ''999999''\<lparr>db_fails := (\<lambda>n. n = 1)\<rparr>) [demo_row] =
     (Inr 0, [demo_row]) \<and>
   cleanup_expired_codes (demo_env minute ''999999'') [demo_row] = (Inr 0, [demo_row])"
proof -
  have a: "db_fails (demo_env (40 * minute) ''999999''\<lparr>db_fails := (\<lambda>n. n = 1)\<rparr>) 0 \<or>
           db_fails (demo_env (40 * minute) ''999999''\<lparr>db_fails := (\<lambda>n. n = 1)\<rparr>) 1"
    by simp
  have b: "\<forall>r \<in> set [demo_row]. \<not> expired_unused (clock (demo_env minute ''999999'') 0) r"
    by (simp add: expired_unused_def demo_defs)
  from cleanup_never_raises[of "demo_env (40 * minute) ''999999''\<lparr>db_fails := (\<lambda>n. n = 1)\<rparr>" "[demo_row]"] a
    cleanup_never_raises[of "demo_env minute ''999999''" "[demo_row]"] b
  show ?thesis by blast
qed



text \<open>
  C5 fails on the code. \<open>generate_code\<close> reads the clock once for the issuance and once
  more for the expiry. With a clock that advances one microsecond per reading, the row
  that \<open>create_code\<close> builds expires one microsecond less than 30 minutes after its
  issuance, and the row that the overwrite leaves one microsecond more.
\<close>

theorem generate_expiry_drift:
  "snd (generate_code default_settings demo_hasher (demo_env 0 ''000123'') [demo_user] []
          ''0123'' False) =
     [demo_row\<lparr>time_stamp_generacion := 1, time_stamp_vencimiento := 1800000000\<rparr>] \<and>
   \<not> ttl_exact default_settings
       (demo_row\<lparr>time_stamp_generacion := 1, time_stamp_vencimiento := 1800000000\<rparr>) \<and>
   snd (generate_code default_settings demo_hasher (demo_env (5 * minute) ''654321'')
          [demo_user] [demo_row] ''0123'' False) =
     [demo_row\<lparr>pswr := ''s$654321'', time_stamp_generacion := 300000000,
                time_stamp_vencimiento := 2100000001\<rparr>] \<and>
   \<not> ttl_exact default_settings
       (demo_row\<lparr>pswr := ''s$654321'', time_stamp_generacion := 300000000,
                  time_stamp_vencimiento := 2100000001\<rparr>)"
  by (simp add: eval_defs ttl_exact_def)

text \<open>
  C6 fails on the code where the remaining wait is a whole number of minutes. A resend at
  minute 3 sets \<open>last_resend_at\<close>; a resend exactly 60 seconds later, with a delay of 2
  minutes, is refused with 429 and told to wait 2 minutes, while the remaining wait,
  rounded up, is 1 minute.
\<close>

theorem resend_wait_whole_minute:
  "run default_settings demo_hasher
     [Generate (demo_env 0 ''000123'') [demo_user] ''0123'',
      Resend (demo_env (3 * minute) ''111111'') [demo_user] ''0123''] [] =
     [demo_row\<lparr>pswr := ''s$111111'', time_stamp_generacion := 180000001,
                time_stamp_vencimiento := 1980000002, resend_count := 1,
                last_resend_at := Some 180000003\<rparr>] \<and>
   resend_code default_settings demo_hasher (demo_env 240000003 ''222222'') [demo_user]
     [demo_row\<lparr>pswr := ''s$111111'', time_stamp_generacion := 180000001,
                time_stamp_vencimiento := 1980000002, resend_count := 1,
                last_resend_at := Some 180000003\<rparr>] ''0123'' =
     (Inl (HTTPException 429 (Debe_esperar 2)),
      [demo_row\<lparr>pswr := ''s$111111'', time_stamp_generacion := 180000001,
                time_stamp_vencimiento := 1980000002, resend_count := 1,
                last_resend_at := Some 180000003\<rparr>]) \<and>
   \<lceil>of_int (CODE_RESEND_DELAY_MINUTES default_settings) -
      total_seconds (240000003 - 180000003) / 60\<rceil> = 1"
  by (simp add: eval_defs)

text \<open>
  C3 fails on the code. After the history of \<open>resend_history\<close> the counter is at the cap
  of 5. At minute 61, more than one hour after the issuance of the first code (at one
  microsecond), a resend is still refused with 429: the hour is counted from
  \<open>time_stamp_generacion\<close>, which every resend rewrites. At minute 80 the resend is
  accepted and leaves \<open>resend_count = 6\<close>, not 1: the reset made by \<open>can_resend\<close> is
  dropped with the session that \<open>resend_code\<close> closes without a commit.
\<close>

theorem resend_window_slides:
  "run default_settings demo_hasher resend_history [] = [capped_row] \<and>
   run default_settings demo_hasher (take 1 resend_history) [] =
     [demo_row\<lparr>time_stamp_generacion := 1\<rparr>] \<and>
   resend_code default_settings demo_hasher (demo_env (61 * minute) ''666666'') [demo_user]
     [capped_row] ''0123'' =
     (Inl (HTTPException 429 Limite_por_hora), [capped_row]) \<and>
   resend_code default_settings demo_hasher (demo_env (80 * minute) ''666666'') [demo_user]
     [capped_row] ''0123'' =
     (Inr \<lparr>gen_correo = Some ''ana@example.com'', gen_nombre = Some ''Ana'',
           gen_code = ''666666''\<rparr>,
      [capped_row\<lparr>pswr := ''s$666666'', time_stamp_generacion := 4800000001,
                   time_stamp_vencimiento := 6600000002, resend_count := 6,
                   last_resend_at := Some 4800000003\<rparr>])"
  by (simp add: history_table) (simp add: eval_defs resend_history_def capped_row_def)

end
